theory Spec2Isabelle
  imports Complex_Main
begin

section \<open>Python values, exceptions and the store\<close>

text \<open>
  The exceptions that the two source files can meet.  \<open>ModuleNotFoundError\<close> is the
  subclass of \<open>ImportError\<close> that a missing package raises; an \<open>except ImportError\<close>
  clause catches both.
\<close>

datatype py_exc =
    ImportError
  | ModuleNotFoundError
  | AttributeError string
  | KeyError string
  | TypeError
  | ValueError
  | AssertionError
  | OtherException string

fun isinstance_ImportError :: "py_exc \<Rightarrow> bool" where
  "isinstance_ImportError ImportError = True"
| "isinstance_ImportError ModuleNotFoundError = True"
| "isinstance_ImportError _ = False"

text \<open>
  The values that the constructor's type annotations name (\<open>None\<close>, integers, lists,
  tuples), booleans, and \<open>PObj\<close> for every other Python object (a string, a float, an
  estimator, ...), about which the wrapper knows nothing.
\<close>

datatype 'o pyval =
    PNone
  | PBool bool
  | PInt int
  | PList "'o pyval list"
  | PTuple "'o pyval list"
  | PObj 'o

text \<open>
  A \<open>dict\<close> with string keys, in insertion order.  \<open>d[k] = v\<close> replaces the value of a
  key that is present and appends the key otherwise.
\<close>

type_synonym 'o dict = "(string \<times> 'o pyval) list"

fun dict_setitem :: "string \<Rightarrow> 'o pyval \<Rightarrow> 'o dict \<Rightarrow> 'o dict" where
  "dict_setitem k v [] = [(k, v)]"
| "dict_setitem k v (p # ps) = (if fst p = k then (k, v) # ps else p # dict_setitem k v ps)"

text \<open>
  Dicts are mutable and shared by reference, so they live in a store: \<open>cells\<close> maps an
  address to the dict stored there, \<open>next_free\<close> is the next address to hand out.
\<close>

record 'o heap =
  cells :: "nat \<Rightarrow> 'o dict"
  next_free :: nat

definition alloc :: "'o dict \<Rightarrow> 'o heap \<Rightarrow> nat \<times> 'o heap" where
  "alloc d h = (next_free h, h\<lparr>cells := (cells h)(next_free h := d), next_free := Suc (next_free h)\<rparr>)"

definition heap_setitem :: "nat \<Rightarrow> string \<Rightarrow> 'o pyval \<Rightarrow> 'o heap \<Rightarrow> 'o heap" where
  "heap_setitem a k v h = h\<lparr>cells := (cells h)(a := dict_setitem k v (cells h a))\<rparr>"

text \<open>
  A \<open>RandomForest\<close> instance.  \<open>attributes\<close> is the instance dictionary for the attributes
  that hold plain values; \<open>kwargs\<close> is the attribute \<open>self.kwargs\<close>, the one attribute
  that holds a reference to a mutable dict.  An attribute that was never assigned is
  absent, and reading it raises \<open>AttributeError\<close>.
\<close>

record 'o py_instance =
  attributes :: "string \<rightharpoonup> 'o pyval"
  kwargs :: "nat option"

definition new_instance :: "'o py_instance" where
  "new_instance = \<lparr>attributes = Map.empty, kwargs = None\<rparr>"

definition getattr :: "'o py_instance \<Rightarrow> string \<Rightarrow> py_exc + 'o pyval" where
  "getattr self name = (case attributes self name of None \<Rightarrow> Inl (AttributeError name) | Some v \<Rightarrow> Inr v)"

definition setattr :: "'o py_instance \<Rightarrow> string \<Rightarrow> 'o pyval \<Rightarrow> 'o py_instance" where
  "setattr self name v = self\<lparr>attributes := (attributes self)(name \<mapsto> v)\<rparr>"

definition getattr_kwargs :: "'o py_instance \<Rightarrow> py_exc + nat" where
  "getattr_kwargs self = (case kwargs self of None \<Rightarrow> Inl (AttributeError ''kwargs'') | Some a \<Rightarrow> Inr a)"

section \<open>random\_forest.py\<close>

text \<open>
  The two collaborators of \<open>RandomForest.__init__\<close> are not part of the file:
  \<^item> \<open>sklearn.ensemble.RandomForestRegressor\<close>, called with keyword arguments only; it is
    a parameter \<open>R\<close> that takes the keyword dict it receives and returns the estimator or
    raises;
  \<^item> \<open>RegressionModel.__init__\<close>, a parameter \<open>B\<close> that takes the instance, the store,
    the three lag specifications and the estimator, and returns the instance and the
    store as it leaves them, or raises.
  The calls that \<open>__init__\<close> makes to them are recorded, in order, with their arguments.
\<close>

datatype 'o ext_call =
    RandomForestRegressor "'o dict"
  | RegressionModel_init "'o pyval" "'o pyval" "'o pyval" 'o

type_synonym 'o regressor = "'o dict \<Rightarrow> py_exc + 'o"

type_synonym 'o base_init =
  "'o py_instance \<Rightarrow> 'o heap \<Rightarrow> 'o pyval \<Rightarrow> 'o pyval \<Rightarrow> 'o pyval \<Rightarrow> 'o \<Rightarrow> py_exc + ('o py_instance \<times> 'o heap)"

text \<open>
  \<open>RandomForest.__init__\<close> (lines 26 to 68).  \<open>extra\<close> holds the keywords of the call that
  name no parameter; entering the function binds \<open>kwargs\<close> to a fresh dict \<open>kw\<close> holding
  them.  Line 59 stores the reference, lines 60 and 61 write through \<open>self.kwargs\<close>
  (the right-hand side is read first), and line 67 expands the dict that the local
  name \<open>kwargs\<close> refers to.  The estimator is built before the base constructor is
  entered, so an exception from \<open>R\<close> leaves \<open>B\<close> uncalled.  There is no \<open>try\<close>: every
  exception leaves the function as it is.
\<close>

definition RandomForest_init ::
  "'o regressor \<Rightarrow> 'o base_init \<Rightarrow> 'o py_instance \<Rightarrow> 'o heap \<Rightarrow>
   'o pyval \<Rightarrow> 'o pyval \<Rightarrow> 'o pyval \<Rightarrow> 'o pyval \<Rightarrow> 'o pyval \<Rightarrow> 'o dict \<Rightarrow>
   'o ext_call list \<times> (py_exc + ('o py_instance \<times> 'o heap))" where
  "RandomForest_init R B self h lags lags_past_covariates lags_future_covariates
       n_estimators max_depth extra =
    (let (kw, h0) = alloc extra h;
         s1 = setattr self ''n_estimators'' n_estimators;
         s2 = setattr s1 ''max_depth'' max_depth;
         s3 = s2\<lparr>kwargs := Some kw\<rparr>
     in case getattr s3 ''n_estimators'' of Inl e \<Rightarrow> ([], Inl e) | Inr v1 \<Rightarrow>
        (case getattr_kwargs s3 of Inl e \<Rightarrow> ([], Inl e) | Inr a1 \<Rightarrow>
        (let h1 = heap_setitem a1 ''n_estimators'' v1 h0
         in case getattr s3 ''max_depth'' of Inl e \<Rightarrow> ([], Inl e) | Inr v2 \<Rightarrow>
        (case getattr_kwargs s3 of Inl e \<Rightarrow> ([], Inl e) | Inr a2 \<Rightarrow>
        (let h2 = heap_setitem a2 ''max_depth'' v2 h1;
             d = cells h2 kw
         in case R d of
              Inl e \<Rightarrow> ([RandomForestRegressor d], Inl e)
            | Inr m \<Rightarrow>
                ([RandomForestRegressor d,
                  RegressionModel_init lags lags_past_covariates lags_future_covariates m],
                 B s3 h2 lags lags_past_covariates lags_future_covariates m))))))"

text \<open>
  A call \<open>RandomForest(...)\<close>: each named parameter is either supplied or takes the
  default of the signature (\<open>None\<close>, \<open>None\<close>, \<open>None\<close>, \<open>100\<close>, \<open>None\<close>); the remaining keywords
  are \<open>extra_arg\<close>.  The instance starts without attributes.
\<close>

record 'o call_args =
  lags_arg :: "'o pyval option"
  lags_past_covariates_arg :: "'o pyval option"
  lags_future_covariates_arg :: "'o pyval option"
  n_estimators_arg :: "'o pyval option"
  max_depth_arg :: "'o pyval option"
  extra_arg :: "'o dict"

definition default_to :: "'a \<Rightarrow> 'a option \<Rightarrow> 'a" where
  "default_to d x = (case x of None \<Rightarrow> d | Some v \<Rightarrow> v)"

definition RandomForest ::
  "'o regressor \<Rightarrow> 'o base_init \<Rightarrow> 'o heap \<Rightarrow> 'o call_args \<Rightarrow>
   'o ext_call list \<times> (py_exc + ('o py_instance \<times> 'o heap))" where
  "RandomForest R B h args =
     RandomForest_init R B new_instance h
       (default_to PNone (lags_arg args))
       (default_to PNone (lags_past_covariates_arg args))
       (default_to PNone (lags_future_covariates_arg args))
       (default_to (PInt 100) (n_estimators_arg args))
       (default_to PNone (max_depth_arg args))
       (extra_arg args)"

section \<open>\<open>RandomForest.__str__\<close>\<close>

definition bind_exc :: "py_exc + 'a \<Rightarrow> ('a \<Rightarrow> py_exc + 'b) \<Rightarrow> py_exc + 'b" where
  "bind_exc r f = (case r of Inl e \<Rightarrow> Inl e | Inr x \<Rightarrow> f x)"

text \<open>
  What \<open>str\<close> and \<open>repr\<close> print for the values above.  An integer prints in decimal,
  with a minus sign when negative; a list prints the \<open>repr\<close> of its elements between
  brackets, a tuple between parentheses, with a trailing comma when it has one
  element.
\<close>

definition digit_char :: "nat \<Rightarrow> char" where
  "digit_char n = ''0123456789'' ! (n mod 10)"

function show_nat :: "nat \<Rightarrow> string" where
  "show_nat n = (if n < 10 then [digit_char n] else show_nat (n div 10) @ [digit_char n])"
  by pat_completeness auto
termination
  by (relation "measure (\<lambda>n. n)") auto

declare show_nat.simps [simp del]

definition show_int :: "int \<Rightarrow> string" where
  "show_int i = (if i < 0 then CHR ''-'' # show_nat (nat (- i)) else show_nat (nat i))"

text \<open>
  Printing can fail.  The interpreter refuses to convert an integer with more decimal
  digits than its limit (\<open>sys.get_int_max_str_digits()\<close>, 4300 unless set otherwise)
  and raises \<open>ValueError\<close>; the sign does not count, and the limit \<open>0\<close> stands for no
  limit, which is also what an interpreter without the limit does.  The limit is the
  parameter \<open>max_str_digits\<close>.  What an object behind \<open>PObj\<close> prints, or raises when
  asked to, is its own business: \<open>ostr\<close> and \<open>orepr\<close> are parameters.
\<close>

definition int_str :: "nat \<Rightarrow> int \<Rightarrow> py_exc + string" where
  "int_str max_str_digits i =
     (if 0 < max_str_digits \<and> max_str_digits < length (show_nat (nat \<bar>i\<bar>))
      then Inl ValueError else Inr (show_int i))"

fun join :: "string \<Rightarrow> string list \<Rightarrow> string" where
  "join sep [] = []"
| "join sep [x] = x"
| "join sep (x # y # ys) = x @ sep @ join sep (y # ys)"

fun py_repr :: "nat \<Rightarrow> ('o \<Rightarrow> py_exc + string) \<Rightarrow> 'o pyval \<Rightarrow> py_exc + string"
  and py_repr_items :: "nat \<Rightarrow> ('o \<Rightarrow> py_exc + string) \<Rightarrow> 'o pyval list \<Rightarrow> py_exc + string list"
  where
  "py_repr dmax orepr PNone = Inr ''None''"
| "py_repr dmax orepr (PBool b) = Inr (if b then ''True'' else ''False'')"
| "py_repr dmax orepr (PInt i) = int_str dmax i"
| "py_repr dmax orepr (PList xs) =
     (case py_repr_items dmax orepr xs of
        Inl e \<Rightarrow> Inl e
      | Inr ss \<Rightarrow> Inr (''['' @ join '', '' ss @ '']''))"
| "py_repr dmax orepr (PTuple xs) =
     (case py_repr_items dmax orepr xs of
        Inl e \<Rightarrow> Inl e
      | Inr ss \<Rightarrow> Inr (''('' @ join '', '' ss @ (if length xs = 1 then '',)'' else '')'')))"
| "py_repr dmax orepr (PObj x) = orepr x"
| "py_repr_items dmax orepr [] = Inr []"
| "py_repr_items dmax orepr (x # xs) =
     (case py_repr dmax orepr x of
        Inl e \<Rightarrow> Inl e
      | Inr s \<Rightarrow>
          (case py_repr_items dmax orepr xs of Inl e \<Rightarrow> Inl e | Inr ss \<Rightarrow> Inr (s # ss)))"

definition py_str ::
  "nat \<Rightarrow> ('o \<Rightarrow> py_exc + string) \<Rightarrow> ('o \<Rightarrow> py_exc + string) \<Rightarrow> 'o pyval \<Rightarrow> py_exc + string" where
  "py_str dmax ostr orepr v = (case v of PObj x \<Rightarrow> ostr x | _ \<Rightarrow> py_repr dmax orepr v)"

text \<open>
  \<open>RandomForest.__str__\<close> (lines 70 to 74).  The four adjacent f-string literals are
  one string; its fields are handled left to right, each attribute read and printed
  before the next one is read, so the first failure, a missing attribute
  (\<open>AttributeError\<close>) or a value that does not print, is the one raised.  The last
  literal ends after \<open>{self.max_depth}\<close>.
\<close>

definition RandomForest_str ::
  "nat \<Rightarrow> ('o \<Rightarrow> py_exc + string) \<Rightarrow> ('o \<Rightarrow> py_exc + string) \<Rightarrow> 'o py_instance \<Rightarrow>
   py_exc + string" where
  "RandomForest_str dmax ostr orepr self =
     bind_exc (getattr self ''lags'') (\<lambda>lags.
     bind_exc (py_str dmax ostr orepr lags) (\<lambda>t1.
     bind_exc (getattr self ''lags_past_covariates'') (\<lambda>lags_past_covariates.
     bind_exc (py_str dmax ostr orepr lags_past_covariates) (\<lambda>t2.
     bind_exc (getattr self ''lags_historical_covariates'') (\<lambda>lags_historical_covariates.
     bind_exc (py_str dmax ostr orepr lags_historical_covariates) (\<lambda>t3.
     bind_exc (getattr self ''lags_future_covariates'') (\<lambda>lags_future_covariates.
     bind_exc (py_str dmax ostr orepr lags_future_covariates) (\<lambda>t4.
     bind_exc (getattr self ''n_estimators'') (\<lambda>n_estimators.
     bind_exc (py_str dmax ostr orepr n_estimators) (\<lambda>t5.
     bind_exc (getattr self ''max_depth'') (\<lambda>max_depth.
     bind_exc (py_str dmax ostr orepr max_depth) (\<lambda>t6.
       Inr (''RandomForest(lags='' @ t1
            @ '', lags_past_covariates='' @ t2
            @ '', '' @ ''lags_historical_covariates='' @ t3
            @ '', '' @ ''lags_future_covariates='' @ t4
            @ '', '' @ ''n_estimators='' @ t5
            @ '', max_depth='' @ t6)))))))))))))"

text \<open>
  The operations that the file defines are \<open>__init__\<close> and \<open>__str__\<close>.  A call of one
  of them on an instance takes the instance and the store and, when it returns,
  leaves them as the body does: \<open>__init__\<close> as above, with the arguments of the call,
  and \<open>__str__\<close>, whose body holds no assignment, unchanged.  A sequence of calls stops
  at the first exception.
\<close>

datatype 'o rf_method =
    Init "'o pyval" "'o pyval" "'o pyval" "'o pyval" "'o pyval" "'o dict"
  | Str

fun call_method ::
  "'o regressor \<Rightarrow> 'o base_init \<Rightarrow> nat \<Rightarrow> ('o \<Rightarrow> py_exc + string) \<Rightarrow> ('o \<Rightarrow> py_exc + string) \<Rightarrow>
   'o rf_method \<Rightarrow> 'o py_instance \<times> 'o heap \<Rightarrow> py_exc + ('o py_instance \<times> 'o heap)" where
  "call_method R B dmax ostr orepr (Init lags lags_past_covariates lags_future_covariates
       n_estimators max_depth extra) (self, h) =
     snd (RandomForest_init R B self h lags lags_past_covariates lags_future_covariates
            n_estimators max_depth extra)"
| "call_method R B dmax ostr orepr Str (self, h) =
     (case RandomForest_str dmax ostr orepr self of Inl e \<Rightarrow> Inl e | Inr s \<Rightarrow> Inr (self, h))"

fun call_methods ::
  "'o regressor \<Rightarrow> 'o base_init \<Rightarrow> nat \<Rightarrow> ('o \<Rightarrow> py_exc + string) \<Rightarrow> ('o \<Rightarrow> py_exc + string) \<Rightarrow>
   'o rf_method list \<Rightarrow> 'o py_instance \<times> 'o heap \<Rightarrow> py_exc + ('o py_instance \<times> 'o heap)" where
  "call_methods R B dmax ostr orepr [] st = Inr st"
| "call_methods R B dmax ostr orepr (m # ms) st =
     (case call_method R B dmax ostr orepr m st of
        Inl e \<Rightarrow> Inl e
      | Inr st' \<Rightarrow> call_methods R B dmax ostr orepr ms st')"

text \<open>
  Reading a string for its parentheses: \<open>scan_parens d s\<close> walks \<open>s\<close> with \<open>d\<close>
  parentheses open inside it and returns how many are open at the end, or \<open>None\<close> as
  soon as a \<open>)\<close> arrives while none is open inside.  So \<open>scan_parens 0 rest = None\<close> says
  that \<open>rest\<close>, the text after an opening parenthesis, holds the \<open>)\<close> that matches it.
\<close>

fun scan_parens :: "nat \<Rightarrow> string \<Rightarrow> nat option" where
  "scan_parens d [] = Some d"
| "scan_parens d (c # cs) =
     (if c = CHR ''('' then scan_parens (Suc d) cs
      else if c = CHR '')'' then (case d of 0 \<Rightarrow> None | Suc d' \<Rightarrow> scan_parens d' cs)
      else scan_parens d cs)"

definition closes_opening :: "string \<Rightarrow> bool" where
  "closes_opening rest = (scan_parens 0 rest = None)"

text \<open>
  Values without an object behind \<open>PObj\<close> at any depth, and among them those whose
  integers stay within the digit limit: the values that the annotations of the
  constructor describe and that print.
\<close>

fun obj_free :: "'o pyval \<Rightarrow> bool" where
  "obj_free PNone = True"
| "obj_free (PBool b) = True"
| "obj_free (PInt i) = True"
| "obj_free (PList xs) = list_all obj_free xs"
| "obj_free (PTuple xs) = list_all obj_free xs"
| "obj_free (PObj x) = False"


section \<open>The comparison \<open>==\<close> and the instance invariant\<close>

text \<open>
  \<open>x == y\<close>.  Among values without opaque objects, a boolean equals the integer \<open>0\<close>
  or \<open>1\<close>, \<open>None\<close> equals \<open>None\<close> only, and lists and tuples are equal to a container of
  the same kind with equal items in the same order: \<open>int_view\<close> replaces each boolean
  by its integer, after which \<open>==\<close> is equality.  As soon as an opaque object takes
  part, the answer is that object's: \<open>oeq\<close> is a parameter.
\<close>

fun int_view :: "'o pyval \<Rightarrow> 'o pyval" where
  "int_view PNone = PNone"
| "int_view (PBool b) = PInt (if b then 1 else 0)"
| "int_view (PInt i) = PInt i"
| "int_view (PList xs) = PList (map int_view xs)"
| "int_view (PTuple xs) = PTuple (map int_view xs)"
| "int_view (PObj x) = PObj x"

definition py_eq :: "('o pyval \<Rightarrow> 'o pyval \<Rightarrow> bool) \<Rightarrow> 'o pyval \<Rightarrow> 'o pyval \<Rightarrow> bool" where
  "py_eq oeq x y = (if obj_free x \<and> obj_free y then int_view x = int_view y else oeq x y)"

definition dict_getitem :: "'o dict \<Rightarrow> string \<Rightarrow> py_exc + 'o pyval" where
  "dict_getitem d k = (case map_of d k of None \<Rightarrow> Inl (KeyError k) | Some v \<Rightarrow> Inr v)"

text \<open>
  The expression
  \<open>self.kwargs['n_estimators'] == self.n_estimators and self.kwargs['max_depth'] == self.max_depth\<close>
  evaluated on an instance: operands left to right, and the second comparison only
  when the first is true.
\<close>

definition invariant_check ::
  "('o pyval \<Rightarrow> 'o pyval \<Rightarrow> bool) \<Rightarrow> 'o py_instance \<times> 'o heap \<Rightarrow> py_exc + bool" where
  "invariant_check oeq st =
     bind_exc (getattr_kwargs (fst st)) (\<lambda>a1.
     bind_exc (dict_getitem (cells (snd st) a1) ''n_estimators'') (\<lambda>k1.
     bind_exc (getattr (fst st) ''n_estimators'') (\<lambda>v1.
       if \<not> py_eq oeq k1 v1 then Inr False
       else
         bind_exc (getattr_kwargs (fst st)) (\<lambda>a2.
         bind_exc (dict_getitem (cells (snd st) a2) ''max_depth'') (\<lambda>k2.
         bind_exc (getattr (fst st) ''max_depth'') (\<lambda>v2.
           Inr (py_eq oeq k2 v2)))))))"

text \<open>
  The same relation between the two dict entries and the two attributes, read as
  "holds the same value": \<open>self.kwargs\<close> is set, both attributes are set, and each
  dict entry is the value of its attribute.
\<close>

definition kwargs_in_step :: "'o py_instance \<times> 'o heap \<Rightarrow> bool" where
  "kwargs_in_step st =
     (case kwargs (fst st) of
        None \<Rightarrow> False
      | Some a \<Rightarrow>
          attributes (fst st) ''n_estimators'' \<noteq> None \<and>
          map_of (cells (snd st) a) ''n_estimators'' = attributes (fst st) ''n_estimators'' \<and>
          attributes (fst st) ''max_depth'' \<noteq> None \<and>
          map_of (cells (snd st) a) ''max_depth'' = attributes (fst st) ''max_depth'')"

definition attr_of :: "string \<Rightarrow> 'o py_instance \<times> 'o heap \<Rightarrow> py_exc + 'o pyval" where
  "attr_of name st = getattr (fst st) name"

section \<open>test\_probabilistic\_models.py, lines 1 to 30\<close>

text \<open>
  The module body up to the list of tested models.  Its inputs are what the imports
  do: \<open>imports_above\<close> for lines 1 to 8, \<open>import_models\<close> for line 12 and
  \<open>import_likelihood\<close> for line 13, each \<open>None\<close> when the import succeeds and the
  exception otherwise.  Only lines 12 to 14 stand inside the \<open>try\<close>, and line 13 runs
  only when line 12 has succeeded.
\<close>

datatype model_cls = ExponentialSmoothing | ARIMA | RNNModel | TCNModel

datatype test_obj = GaussianLikelihoodModel

record module_state =
  TORCH_AVAILABLE :: bool
  logged_warnings :: "string list"
  models_cls_kwargs_errs :: "(model_cls \<times> test_obj dict \<times> rat) list"

definition try_imports :: "py_exc option \<Rightarrow> py_exc option \<Rightarrow> py_exc + bool" where
  "try_imports import_models import_likelihood =
     (case import_models of Some e \<Rightarrow> Inl e | None \<Rightarrow>
      (case import_likelihood of Some e \<Rightarrow> Inl e | None \<Rightarrow> Inr True))"

definition module_body :: "py_exc option \<Rightarrow> py_exc option \<Rightarrow> py_exc option \<Rightarrow> py_exc + module_state" where
  "module_body imports_above import_models import_likelihood =
     (case imports_above of Some e \<Rightarrow> Inl e | None \<Rightarrow>
      bind_exc
        (case try_imports import_models import_likelihood of
           Inl e \<Rightarrow>
             if isinstance_ImportError e
             then Inr (False, [''Torch not available. TCN tests will be skipped.''])
             else Inl e
         | Inr t \<Rightarrow> Inr (t, []))
        (\<lambda>(torch_available, warnings).
           Inr \<lparr>TORCH_AVAILABLE = torch_available,
                logged_warnings = warnings,
                models_cls_kwargs_errs =
                  [(ExponentialSmoothing, [], 4 / 10),
                   (ARIMA, [(''p'', PInt 1), (''d'', PInt 0), (''q'', PInt 1)], 17 / 100)]
                  @ (if torch_available
                     then [(RNNModel,
                            [(''input_chunk_length'', PInt 2), (''training_length'', PInt 10),
                             (''n_epochs'', PInt 20), (''random_state'', PInt 0),
                             (''likelihood'', PObj GaussianLikelihoodModel)], 19 / 10),
                           (TCNModel,
                            [(''input_chunk_length'', PInt 10), (''output_chunk_length'', PInt 5),
                             (''n_epochs'', PInt 60), (''random_state'', PInt 0),
                             (''likelihood'', PObj GaussianLikelihoodModel)], 28 / 100)]
                     else [])\<rparr>))"

definition tested_models :: "module_state \<Rightarrow> model_cls list" where
  "tested_models st = map fst (models_cls_kwargs_errs st)"

section \<open>Collaborators to run the constructor with\<close>

text \<open>
  The frame that the instance invariant needs from \<open>RegressionModel.__init__\<close>: when
  it returns, it has left \<open>self.n_estimators\<close>, \<open>self.max_depth\<close>, \<open>self.kwargs\<close> and the
  dict behind \<open>self.kwargs\<close> as they were.
\<close>

definition base_preserves :: "'o base_init \<Rightarrow> bool" where
  "base_preserves B =
     (\<forall>self h l1 l2 l3 m self' h'.
        B self h l1 l2 l3 m = Inr (self', h') \<longrightarrow>
          kwargs self' = kwargs self \<and>
          attributes self' ''n_estimators'' = attributes self ''n_estimators'' \<and>
          attributes self' ''max_depth'' = attributes self ''max_depth'' \<and>
          (\<forall>a. kwargs self = Some a \<longrightarrow> cells h' a = cells h a))"

text \<open>
  One estimator constructor and one base constructor to evaluate the definitions on:
  the first refuses a keyword it does not know with \<open>TypeError\<close>, the second refuses
  a call without any lag specification with \<open>ValueError\<close> and otherwise stores the
  estimator and the lag specifications on the instance.
\<close>

definition sample_regressor :: "string regressor" where
  "sample_regressor d =
     (if list_all (\<lambda>p. fst p \<in> set [''n_estimators'', ''max_depth'', ''random_state'', ''n_jobs'']) d
      then Inr ''RandomForestRegressor'' else Inl TypeError)"

definition sample_base_init :: "string base_init" where
  "sample_base_init self h lags lags_past_covariates lags_future_covariates m =
     (if lags = PNone \<and> lags_past_covariates = PNone \<and> lags_future_covariates = PNone
      then Inl ValueError
      else Inr (setattr (setattr (setattr (setattr (setattr self
                  ''model'' (PObj m))
                  ''lags'' lags)
                  ''lags_past_covariates'' lags_past_covariates)
                  ''lags_historical_covariates'' PNone)
                  ''lags_future_covariates'' lags_future_covariates, h))"

definition empty_heap :: "'o heap" where
  "empty_heap = \<lparr>cells = (\<lambda>a. []), next_free = 0\<rparr>"


text \<open>
  Opaque objects to evaluate the definitions on are named by strings.  Printing: the
  object is a \<open>str\<close> with that text, so \<open>str\<close> gives the text and \<open>repr\<close> the text
  between quotes (for a text without quotes, backslashes or control characters).
  Comparing: the object \<open>nan\<close> is \<open>float('nan')\<close>, which equals nothing, itself
  included; any other object equals itself only.
\<close>

definition text_str :: "string \<Rightarrow> py_exc + string" where
  "text_str x = Inr x"

definition text_repr :: "string \<Rightarrow> py_exc + string" where
  "text_repr x = Inr (CHR 0x27 # x @ [CHR 0x27])"

definition nan_eq :: "string pyval \<Rightarrow> string pyval \<Rightarrow> bool" where
  "nan_eq x y = (x = y \<and> x \<noteq> PObj ''nan'')"

text \<open>
  A base constructor that does not leave the hyperparameters alone: it behaves as
  \<open>sample_base_init\<close> and then resets \<open>self.n_estimators\<close> to \<open>None\<close>.
\<close>

definition resetting_base_init :: "string base_init" where
  "resetting_base_init self h lags lags_past_covariates lags_future_covariates m =
     (case sample_base_init self h lags lags_past_covariates lags_future_covariates m of
        Inl e \<Rightarrow> Inl e
      | Inr (self', h') \<Rightarrow> Inr (setattr self' ''n_estimators'' PNone, h'))"

section \<open>Properties of the constructor\<close>

lemmas init_defs = RandomForest_init_def alloc_def setattr_def getattr_def
  getattr_kwargs_def heap_setitem_def Let_def

lemma dict_setitem_map_of: "map_of (dict_setitem k v d) = (map_of d)(k \<mapsto> v)"
  by (induction d) (auto simp: fun_eq_iff)

lemma sample_regressor_defaults:
  "sample_regressor (dict_setitem ''max_depth'' PNone (dict_setitem ''n_estimators'' (PInt 100) []))
     = Inr ''RandomForestRegressor''"
  by (simp add: sample_regressor_def)

lemma sample_base_init_preserves: "base_preserves sample_base_init"
  by (auto simp: base_preserves_def sample_base_init_def setattr_def split: if_splits)

text \<open>
  C1.  Whatever the call, the first thing the constructor does to its collaborators is
  to build the \<open>RandomForestRegressor\<close>, and the keyword arguments of that call are the
  caller's extra keywords with \<open>n_estimators\<close> and \<open>max_depth\<close> set to the constructor's
  arguments, \<open>100\<close> and \<open>None\<close> when they are not given.  The two entries were written
  through \<open>self.kwargs\<close> and are read through \<open>kwargs\<close>: both name the same dict.
\<close>

theorem RandomForest_regressor_kwargs:
  "(\<exists>rest. fst (RandomForest R B h args) =
      RandomForestRegressor
        (dict_setitem ''max_depth'' (default_to PNone (max_depth_arg args))
          (dict_setitem ''n_estimators'' (default_to (PInt 100) (n_estimators_arg args))
            (extra_arg args))) # rest) \<and>
   map_of (dict_setitem ''max_depth'' (default_to PNone (max_depth_arg args))
          (dict_setitem ''n_estimators'' (default_to (PInt 100) (n_estimators_arg args))
            (extra_arg args))) =
     (map_of (extra_arg args))
       (''n_estimators'' \<mapsto> default_to (PInt 100) (n_estimators_arg args),
        ''max_depth'' \<mapsto> default_to PNone (max_depth_arg args))"
proof
  show "\<exists>rest. fst (RandomForest R B h args) =
      RandomForestRegressor
        (dict_setitem ''max_depth'' (default_to PNone (max_depth_arg args))
          (dict_setitem ''n_estimators'' (default_to (PInt 100) (n_estimators_arg args))
            (extra_arg args))) # rest"
    by (simp add: RandomForest_def init_defs split: sum.split)
  show "map_of (dict_setitem ''max_depth'' (default_to PNone (max_depth_arg args))
          (dict_setitem ''n_estimators'' (default_to (PInt 100) (n_estimators_arg args))
            (extra_arg args))) =
     (map_of (extra_arg args))
       (''n_estimators'' \<mapsto> default_to (PInt 100) (n_estimators_arg args),
        ''max_depth'' \<mapsto> default_to PNone (max_depth_arg args))"
    by (simp add: dict_setitem_map_of)
qed

theorem RandomForest_regressor_kwargs_witness:
  "fst (RandomForest sample_regressor sample_base_init empty_heap
     \<lparr>lags_arg = Some (PInt 3), lags_past_covariates_arg = None,
      lags_future_covariates_arg = None, n_estimators_arg = None, max_depth_arg = None,
      extra_arg = [(''random_state'', PInt 0)]\<rparr>) =
   [RandomForestRegressor
      [(''random_state'', PInt 0), (''n_estimators'', PInt 100), (''max_depth'', PNone)],
    RegressionModel_init (PInt 3) PNone PNone ''RandomForestRegressor'']"
  using RandomForest_regressor_kwargs [of sample_regressor sample_base_init empty_heap
     "\<lparr>lags_arg = Some (PInt 3), lags_past_covariates_arg = None,
      lags_future_covariates_arg = None, n_estimators_arg = None, max_depth_arg = None,
      extra_arg = [(''random_state'', PInt 0)]\<rparr>"]
  by (simp add: RandomForest_def init_defs default_to_def sample_regressor_def empty_heap_def)

text \<open>
  C6.  Once the estimator is built, the constructor calls \<open>RegressionModel.__init__\<close>
  with \<open>lags\<close>, \<open>lags_past_covariates\<close> and \<open>lags_future_covariates\<close> exactly as it
  received them, whatever their shape (an integer, a list, a tuple, \<open>None\<close>), and its
  outcome is the outcome of that call.
\<close>

theorem RandomForest_lags_forwarded:
  assumes "R (dict_setitem ''max_depth'' md (dict_setitem ''n_estimators'' ne extra)) = Inr m"
  shows "\<exists>s h'. RandomForest_init R B self h lags lpc lfc ne md extra =
           ([RandomForestRegressor
               (dict_setitem ''max_depth'' md (dict_setitem ''n_estimators'' ne extra)),
             RegressionModel_init lags lpc lfc m],
            B s h' lags lpc lfc m)"
  using assms by (simp add: init_defs) blast

theorem RandomForest_lags_forwarded_witness:
  "\<exists>s h'. RandomForest_init sample_regressor sample_base_init new_instance empty_heap
      (PInt 3) (PList [PInt (- 1), PInt (- 3)]) (PTuple [PInt 2, PInt 1]) (PInt 100) PNone [] =
     ([RandomForestRegressor [(''n_estimators'', PInt 100), (''max_depth'', PNone)],
       RegressionModel_init (PInt 3) (PList [PInt (- 1), PInt (- 3)]) (PTuple [PInt 2, PInt 1])
         ''RandomForestRegressor''],
      sample_base_init s h' (PInt 3) (PList [PInt (- 1), PInt (- 3)]) (PTuple [PInt 2, PInt 1])
         ''RandomForestRegressor'')"
  using RandomForest_lags_forwarded [where R = sample_regressor and md = PNone
      and ne = "PInt 100" and extra = "[]" and B = sample_base_init and self = new_instance
      and h = empty_heap and lags = "PInt 3" and lpc = "PList [PInt (- 1), PInt (- 3)]"
      and lfc = "PTuple [PInt 2, PInt 1]", OF sample_regressor_defaults]
  by simp

text \<open>
  C7.  The constructor checks no lag and handles no exception: when the estimator is
  built and \<open>RegressionModel.__init__\<close> rejects the lag specifications with an
  exception \<open>e\<close>, the constructor raises that same \<open>e\<close>.
\<close>

theorem RandomForest_base_exception_propagates:
  assumes "R (dict_setitem ''max_depth'' md (dict_setitem ''n_estimators'' ne extra)) = Inr m"
    and "\<And>s h'. B s h' lags lpc lfc m = Inl e"
  shows "snd (RandomForest_init R B self h lags lpc lfc ne md extra) = Inl e"
  using assms by (simp add: init_defs)

theorem RandomForest_base_exception_propagates_witness:
  "snd (RandomForest_init sample_regressor sample_base_init new_instance empty_heap
      PNone PNone PNone (PInt 100) PNone []) = Inl ValueError"
proof -
  have b: "sample_base_init s h' PNone PNone PNone ''RandomForestRegressor'' = Inl ValueError"
    for s h'
    by (simp add: sample_base_init_def)
  show ?thesis
    by (rule RandomForest_base_exception_propagates [where R = sample_regressor
        and B = sample_base_init and md = PNone and ne = "PInt 100" and extra = "[]",
        OF sample_regressor_defaults b])
qed

section \<open>Properties of the instance invariant\<close>

text \<open>
  What holds when \<open>__init__\<close> returns, on any instance and store, over a base
  constructor that keeps to the frame; and that every later call of an operation of
  the file keeps the dict entries and the attributes in step.
\<close>

lemma py_eq_refl: "obj_free v \<Longrightarrow> py_eq oeq v v"
  by (simp add: py_eq_def)

lemma init_post:
  assumes "base_preserves B"
    and "snd (RandomForest_init R B self h lags lpc lfc ne md extra) = Inr (self', h')"
  shows "kwargs self' = Some (next_free h)"
    and "map_of (cells h' (next_free h)) = (map_of extra)(''n_estimators'' \<mapsto> ne, ''max_depth'' \<mapsto> md)"
    and "attributes self' ''n_estimators'' = Some ne"
    and "attributes self' ''max_depth'' = Some md"
proof -
  let ?d = "dict_setitem ''max_depth'' md (dict_setitem ''n_estimators'' ne extra)"
  let ?s = "(setattr (setattr self ''n_estimators'' ne) ''max_depth'' md)
              \<lparr>kwargs := Some (next_free h)\<rparr>"
  let ?h = "heap_setitem (next_free h) ''max_depth'' md
              (heap_setitem (next_free h) ''n_estimators'' ne (snd (alloc extra h)))"
  obtain m where m: "R ?d = Inr m"
    using assms(2) by (cases "R ?d") (simp_all add: init_defs)
  have B: "B ?s ?h lags lpc lfc m = Inr (self', h')"
    using assms(2) m by (simp add: init_defs)
  have frame: "kwargs self' = kwargs ?s"
      "attributes self' ''n_estimators'' = attributes ?s ''n_estimators''"
      "attributes self' ''max_depth'' = attributes ?s ''max_depth''"
      "cells h' (next_free h) = cells ?h (next_free h)"
    using assms(1) B unfolding base_preserves_def by fastforce+
  have "cells ?h (next_free h) = ?d"
    by (simp add: init_defs)
  then show "map_of (cells h' (next_free h)) =
      (map_of extra)(''n_estimators'' \<mapsto> ne, ''max_depth'' \<mapsto> md)"
    using frame(4) by (simp add: dict_setitem_map_of)
  show "kwargs self' = Some (next_free h)"
    using frame(1) by simp
  show "attributes self' ''n_estimators'' = Some ne" "attributes self' ''max_depth'' = Some md"
    using frame(2,3) by (simp_all add: setattr_def)
qed

lemma init_in_step:
  assumes "base_preserves B"
    and "snd (RandomForest_init R B self h lags lpc lfc ne md extra) = Inr st"
  shows "kwargs_in_step st"
  using init_post [OF assms(1), of R self h lags lpc lfc ne md extra "fst st" "snd st"] assms(2)
  by (simp add: kwargs_in_step_def)

lemma call_method_in_step:
  assumes "base_preserves B" and "kwargs_in_step st"
    and "call_method R B dmax ostr orepr m st = Inr st'"
  shows "kwargs_in_step st'"
proof (cases m)
  case (Init l1 l2 l3 ne md extra)
  then show ?thesis
    using assms(1,3) init_in_step [of B R "fst st" "snd st" l1 l2 l3 ne md extra st']
    by (cases st) simp
next
  case Str
  then show ?thesis using assms(2,3) by (cases st) (simp split: sum.splits)
qed

lemma call_methods_in_step:
  assumes "base_preserves B"
  shows "kwargs_in_step st \<Longrightarrow> call_methods R B dmax ostr orepr ms st = Inr st' \<Longrightarrow> kwargs_in_step st'"
proof (induction ms arbitrary: st)
  case Nil
  then show ?case by simp
next
  case (Cons m ms)
  then obtain st1 where 1: "call_method R B dmax ostr orepr m st = Inr st1"
      "call_methods R B dmax ostr orepr ms st1 = Inr st'"
    by (auto split: sum.splits)
  show ?case
    using Cons.IH [OF call_method_in_step [OF assms Cons.prems(1) 1(1)] 1(2)] .
qed

lemma call_methods_str_only:
  "list_all (\<lambda>m. m = Str) ms \<Longrightarrow> call_methods R B dmax ostr orepr ms st = Inr st' \<Longrightarrow> st' = st"
proof (induction ms arbitrary: st)
  case Nil
  then show ?case by simp
next
  case (Cons m ms)
  then show ?case by (cases st) (auto split: sum.splits)
qed

text \<open>
  C8, as amended.  When \<open>__init__\<close> returns, over a base constructor that leaves the
  two hyperparameters and \<open>self.kwargs\<close> alone, \<open>self.kwargs['n_estimators']\<close> and
  \<open>self.n_estimators\<close> are both the \<open>n_estimators\<close> argument and
  \<open>self.kwargs['max_depth']\<close> and \<open>self.max_depth\<close> are both the \<open>max_depth\<close> argument;
  so the two comparisons with \<open>==\<close> are true exactly when each argument equals
  itself, which \<open>None\<close>, booleans, integers and lists and tuples of them do.  After any
  sequence of later calls of \<open>__init__\<close> and \<open>__str__\<close> that return, each dict entry is
  still the value of its attribute, and calls of \<open>__str__\<close> alone leave the instance
  and the store as they are.
\<close>

theorem RandomForest_kwargs_invariant:
  assumes "base_preserves B"
    and "snd (RandomForest_init R B self h lags lpc lfc ne md extra) = Inr (self', h')"
  shows "(\<exists>a. kwargs self' = Some a \<and>
            dict_getitem (cells h' a) ''n_estimators'' = Inr ne \<and>
            getattr self' ''n_estimators'' = Inr ne \<and>
            dict_getitem (cells h' a) ''max_depth'' = Inr md \<and>
            getattr self' ''max_depth'' = Inr md) \<and>
         invariant_check oeq (self', h') = Inr (py_eq oeq ne ne \<and> py_eq oeq md md) \<and>
         (obj_free ne \<and> obj_free md \<longrightarrow> invariant_check oeq (self', h') = Inr True) \<and>
         (\<forall>ms st. call_methods R B dmax ostr orepr ms (self', h') = Inr st \<longrightarrow>
            kwargs_in_step st \<and> (list_all (\<lambda>m. m = Str) ms \<longrightarrow> st = (self', h')))"
proof -
  note post = init_post [OF assms]
  have items: "dict_getitem (cells h' (next_free h)) ''n_estimators'' = Inr ne"
      "dict_getitem (cells h' (next_free h)) ''max_depth'' = Inr md"
    by (simp_all add: dict_getitem_def post(2))
  have attrs: "getattr self' ''n_estimators'' = Inr ne" "getattr self' ''max_depth'' = Inr md"
    by (simp_all add: getattr_def post(3,4))
  have check: "invariant_check oeq (self', h') = Inr (py_eq oeq ne ne \<and> py_eq oeq md md)"
    by (simp add: invariant_check_def bind_exc_def getattr_kwargs_def post(1) items attrs)
  have later: "kwargs_in_step st \<and> (list_all (\<lambda>m. m = Str) ms \<longrightarrow> st = (self', h'))"
    if "call_methods R B dmax ostr orepr ms (self', h') = Inr st" for ms st
    using call_methods_in_step [OF assms(1) init_in_step [OF assms] that]
      call_methods_str_only [OF _ that] by blast
  show ?thesis
    using post(1) items attrs check later by (auto simp: py_eq_refl)
qed

lemmas run_defs = init_defs sample_regressor_def sample_base_init_def empty_heap_def
  new_instance_def RandomForest_str_def bind_exc_def py_str_def int_str_def show_int_def
  show_nat.simps digit_char_def text_str_def

theorem RandomForest_kwargs_invariant_witness:
  "\<exists>st. snd (RandomForest_init sample_regressor sample_base_init new_instance empty_heap
            (PInt 3) PNone PNone (PInt 50) (PInt 4) [(''random_state'', PInt 0)]) = Inr st \<and>
     invariant_check nan_eq st = Inr True \<and>
     (\<exists>st2. call_methods sample_regressor sample_base_init 4300 text_str text_repr
              [Str, Init (PInt 5) PNone PNone (PInt 10) PNone [], Str] st = Inr st2 \<and>
            kwargs_in_step st2) \<and>
     call_methods sample_regressor sample_base_init 4300 text_str text_repr [Str, Str] st = Inr st"
proof -
  have "\<exists>st. snd (RandomForest_init sample_regressor sample_base_init new_instance empty_heap
            (PInt 3) PNone PNone (PInt 50) (PInt 4) [(''random_state'', PInt 0)]) = Inr st \<and>
     (\<exists>st2. call_methods sample_regressor sample_base_init 4300 text_str text_repr
              [Str, Init (PInt 5) PNone PNone (PInt 10) PNone [], Str] st = Inr st2) \<and>
     call_methods sample_regressor sample_base_init 4300 text_str text_repr [Str, Str] st = Inr st"
    by (simp add: run_defs)
  then obtain self' h' st2 where run:
      "snd (RandomForest_init sample_regressor sample_base_init new_instance empty_heap
            (PInt 3) PNone PNone (PInt 50) (PInt 4) [(''random_state'', PInt 0)]) = Inr (self', h')"
    and later: "call_methods sample_regressor sample_base_init 4300 text_str text_repr
              [Str, Init (PInt 5) PNone PNone (PInt 10) PNone [], Str] (self', h') = Inr st2"
    and strs: "call_methods sample_regressor sample_base_init 4300 text_str text_repr [Str, Str]
              (self', h') = Inr (self', h')"
    by auto
  note inv = RandomForest_kwargs_invariant [OF sample_base_init_preserves run,
        of nan_eq 4300 text_str text_repr]
  from inv have chk: "invariant_check nan_eq (self', h') = Inr True"
    by (simp add: py_eq_def)
  from inv have "\<forall>ms st. call_methods sample_regressor sample_base_init 4300 text_str text_repr
        ms (self', h') = Inr st \<longrightarrow> kwargs_in_step st"
    by blast
  with later have "kwargs_in_step st2"
    by blast
  with run chk later strs show ?thesis
    by blast
qed

text \<open>
  Without these restrictions the statement fails in three ways.  With \<open>n_estimators=float('nan')\<close>
  the constructor returns and \<open>self.kwargs['n_estimators'] == self.n_estimators\<close> is
  false, the two being the same object that does not equal itself.  \<open>__init__\<close> is an
  operation of the file, and a later call of it with \<open>n_estimators=50\<close> changes
  \<open>self.n_estimators\<close> from \<open>100\<close> to \<open>50\<close>.  And over a base constructor that resets
  \<open>self.n_estimators\<close>, the comparison is false when \<open>__init__\<close> returns.
\<close>

theorem RandomForest_kwargs_invariant_counterexample:
  "bind_exc (snd (RandomForest_init sample_regressor sample_base_init new_instance empty_heap
       (PInt 3) PNone PNone (PObj ''nan'') PNone []))
     (invariant_check nan_eq) = Inr False \<and>
   bind_exc (snd (RandomForest_init sample_regressor sample_base_init new_instance empty_heap
       (PInt 3) PNone PNone (PInt 100) PNone []))
     (attr_of ''n_estimators'') = Inr (PInt 100) \<and>
   bind_exc (bind_exc (snd (RandomForest_init sample_regressor sample_base_init new_instance
       empty_heap (PInt 3) PNone PNone (PInt 100) PNone []))
     (call_methods sample_regressor sample_base_init 4300 text_str text_repr
        [Init (PInt 3) PNone PNone (PInt 50) PNone []]))
     (attr_of ''n_estimators'') = Inr (PInt 50) \<and>
   bind_exc (snd (RandomForest_init sample_regressor resetting_base_init new_instance empty_heap
       (PInt 3) PNone PNone (PInt 100) PNone []))
     (invariant_check nan_eq) = Inr False"
  by (simp add: run_defs resetting_base_init_def invariant_check_def dict_getitem_def py_eq_def
      nan_eq_def attr_of_def)

section \<open>Properties of \<open>__str__\<close>\<close>

text \<open>
  A string in which every \<open>)\<close> closes a \<open>(\<close> of the same string, and every \<open>(\<close> is
  closed, leaves the number of open parentheses as it found it.  That holds for what
  \<open>str\<close> prints for a printable value, and such a value does print.  An integer of
  more digits than a positive limit does not.
\<close>

lemma scan_parens_append:
  "scan_parens d (xs @ ys) = (case scan_parens d xs of None \<Rightarrow> None | Some d' \<Rightarrow> scan_parens d' ys)"
  by (induction xs arbitrary: d) (auto split: nat.splits)











lemma closes_opening_when_closed: "scan_parens 0 s = Some 0 \<Longrightarrow> closes_opening (s @ '')'')"
  by (simp add: closes_opening_def scan_parens_append)




section \<open>Properties of the test module's import guard\<close>

text \<open>
  C5.  An \<open>ImportError\<close> \<open>e1\<close> from either import inside the \<open>try\<close> is caught: the module
  body completes with one warning logged, \<open>TORCH_AVAILABLE\<close> false and
  \<open>ExponentialSmoothing\<close> and \<open>ARIMA\<close> as the only tested models, where two successful
  imports give all four.  Any other exception
  \<open>e2\<close> from those imports leaves the module body as it is, and so does every
  exception, \<open>ImportError\<close> included, from the imports above the \<open>try\<close>.
\<close>

theorem torch_import_guard:
  assumes "isinstance_ImportError e1" and "\<not> isinstance_ImportError e2"
  shows "module_body None (Some e1) x = module_body None None (Some e1) \<and>
         (\<exists>st. module_body None None (Some e1) = Inr st \<and> \<not> TORCH_AVAILABLE st \<and>
              logged_warnings st = [''Torch not available. TCN tests will be skipped.''] \<and>
              tested_models st = [ExponentialSmoothing, ARIMA]) \<and>
         (\<exists>st. module_body None None None = Inr st \<and> TORCH_AVAILABLE st \<and>
              logged_warnings st = [] \<and>
              tested_models st = [ExponentialSmoothing, ARIMA, RNNModel, TCNModel]) \<and>
         module_body None (Some e2) x = Inl e2 \<and>
         module_body None None (Some e2) = Inl e2 \<and>
         module_body (Some e) y z = Inl e"
  using assms
  by (simp add: module_body_def try_imports_def bind_exc_def tested_models_def)

theorem torch_import_guard_witness:
  "module_body None (Some ModuleNotFoundError) None = module_body None None (Some ModuleNotFoundError) \<and>
   module_body None None (Some ModuleNotFoundError) =
     Inr \<lparr>TORCH_AVAILABLE = False,
          logged_warnings = [''Torch not available. TCN tests will be skipped.''],
          models_cls_kwargs_errs =
            [(ExponentialSmoothing, [], 4 / 10),
             (ARIMA, [(''p'', PInt 1), (''d'', PInt 0), (''q'', PInt 1)], 17 / 100)]\<rparr> \<and>
   module_body None (Some ValueError) None = Inl ValueError \<and>
   module_body None None (Some ValueError) = Inl ValueError \<and>
   module_body (Some ImportError) None None = Inl ImportError"
  using torch_import_guard [of ModuleNotFoundError ValueError None ImportError None None]
  by (simp add: module_body_def try_imports_def bind_exc_def)

end
